theory Spec2Isabelle
  imports Main
begin

section \<open>Python values and exceptions\<close>

text \<open>
  The embedding follows \<^verbatim>\<open>src/parser.py\<close>. Offsets into the source buffer are
  natural numbers. A raised exception is the \<open>Inl\<close> branch of a sum, a returned value the
  \<open>Inr\<close> branch. Mapper callbacks are pure functions that return a value or raise.

  The three exception classes of the module carry message, source and position. Every other
  instance of a subclass of \<^verbatim>\<open>Exception\<close> (\<^verbatim>\<open>NameError\<close>, \<^verbatim>\<open>TypeError\<close>,
  \<^verbatim>\<open>AttributeError\<close>, \<^verbatim>\<open>IndexError\<close>, \<^verbatim>\<open>ValueError\<close>, or whatever a
  mapper raises) is \<open>PyException\<close> with its class name when \<^verbatim>\<open>str(exc)\<close> returns,
  and \<open>PyExceptionStrRaises\<close> with its class name and the exception that
  \<^verbatim>\<open>str(exc)\<close> raises when it does not. \<open>PyBaseException\<close> is an exception
  outside \<^verbatim>\<open>Exception\<close>: \<^verbatim>\<open>SystemExit\<close>, \<^verbatim>\<open>KeyboardInterrupt\<close>,
  \<^verbatim>\<open>GeneratorExit\<close>.
\<close>

datatype pyexn =
    ParserException string string nat
  | ParserNotMatchException string string nat
  | ParserFatalException string string nat
  | PyException string
  | PyExceptionStrRaises string pyexn
  | PyBaseException string

text \<open>\<^verbatim>\<open>except ParserException\<close> catches the base class and both subclasses.\<close>

fun isinstance_ParserException :: "pyexn \<Rightarrow> bool" where
  "isinstance_ParserException (ParserException m s p) = True"
| "isinstance_ParserException (ParserNotMatchException m s p) = True"
| "isinstance_ParserException (ParserFatalException m s p) = True"
| "isinstance_ParserException e = False"

text \<open>\<^verbatim>\<open>except Exception\<close> catches everything but the exceptions outside that class.\<close>

fun isinstance_Exception :: "pyexn \<Rightarrow> bool" where
  "isinstance_Exception (PyBaseException c) = False"
| "isinstance_Exception e = True"

text \<open>\<^verbatim>\<open>str(exc)\<close>: the exception it raises, if it raises.\<close>

fun str_raises :: "pyexn \<Rightarrow> pyexn option" where
  "str_raises (PyExceptionStrRaises c e) = Some e"
| "str_raises e = None"

text \<open>\<^verbatim>\<open>except ParserNotMatchException\<close> catches that subclass only.\<close>

fun isinstance_ParserNotMatchException :: "pyexn \<Rightarrow> bool" where
  "isinstance_ParserNotMatchException (ParserNotMatchException m s p) = True"
| "isinstance_ParserNotMatchException e = False"


text \<open>
  A reference to a structure object, as far as the module reads through it: the object's
  identity, its class, and the \<^verbatim>\<open>_flattern\<close> attribute (absent on anything that is not
  a bound Sequence).
\<close>

datatype pyclass = CToken | CSequence | CSwitch

datatype objref = ObjRef (oid: nat) (ocls: pyclass) (oflattern: "bool option")

datatype val =
    VNone
  | VInt int
  | VStr string
  | VTuple "val list"
  | VList "val list"
  | VObj objref

text \<open>A match object: \<^verbatim>\<open>m.start()\<close>, \<^verbatim>\<open>m.end()\<close> and \<^verbatim>\<open>m.groups()\<close>.\<close>

datatype pymatch = Match (m_start: nat) (m_end: nat) (m_groups: "val list")

text \<open>
  A compiled pattern is what \<^verbatim>\<open>self._pattern.match(source, start, end)\<close> computes:
  a match object or \<^verbatim>\<open>None\<close>. The regular expression engine belongs to the Python
  library, so the general theorems take the pattern as a parameter.
\<close>

type_synonym pattern = "string \<Rightarrow> nat \<Rightarrow> nat \<Rightarrow> pymatch option"

type_synonym result = "pyexn + val \<times> nat"

section \<open>Structure\<close>

text \<open>
  A structure object seen from its callers: its reference, the text of \<^verbatim>\<open>repr(self)\<close>
  (used in messages only) and its two methods, which the subclasses fill in.
\<close>

record "structure" =
  sref :: objref
  srepr :: string
  parse :: "string \<Rightarrow> nat \<Rightarrow> nat \<Rightarrow> result"
  fullparse :: "string \<Rightarrow> nat \<Rightarrow> nat \<Rightarrow> result"

definition base_repr :: "string \<Rightarrow> string \<Rightarrow> string" where
  "base_repr tyname inner = ''<'' @ tyname @ '' '' @ inner @ ''>''"

text \<open>\<^verbatim>\<open>Structure.fullparse\<close>, the default that Token inherits.\<close>

definition Structure_fullparse ::
  "(string \<Rightarrow> nat \<Rightarrow> nat \<Rightarrow> result) \<Rightarrow> string \<Rightarrow> nat \<Rightarrow> nat \<Rightarrow> result" where
  "Structure_fullparse self_parse source start endp =
     (case self_parse source start endp of
        Inl e \<Rightarrow> Inl e
      | Inr (parsed, next_start) \<Rightarrow>
          if next_start \<noteq> endp
          then Inl (ParserFatalException ''extra unparsed data'' source endp)
          else Inr (parsed, next_start))"

text \<open>
  \<^verbatim>\<open>_safecall\<close>. The argument is the outcome of \<^verbatim>\<open>mapper(*args, **kwargs)\<close>.
  A parser exception is re-raised, and an exception outside \<^verbatim>\<open>Exception\<close> is not
  caught. In the other handler the arguments of
  \<^verbatim>\<open>ParserFatalException(str(exc), source, start)\<close> are evaluated from the left:
  \<^verbatim>\<open>str(exc)\<close> first, which may raise; then \<^verbatim>\<open>source\<close>, which is neither a
  parameter of \<^verbatim>\<open>_safecall\<close> nor a global of the module (nor is \<^verbatim>\<open>start\<close>), so
  evaluating it raises \<^verbatim>\<open>NameError\<close>.
\<close>

definition safecall :: "pyexn + val \<Rightarrow> pyexn + val" where
  "safecall outcome =
     (case outcome of
        Inr v \<Rightarrow> Inr v
      | Inl exc \<Rightarrow>
          if isinstance_ParserException exc then Inl exc
          else if isinstance_Exception exc
          then (case str_raises exc of
                  Some e \<Rightarrow> Inl e
                | None \<Rightarrow> Inl (PyException ''NameError''))
          else Inl exc)"

section \<open>Token\<close>

record token =
  tok_id :: nat
  tok_repr :: string
  tok_pattern :: pattern
  tok_mapper :: "pymatch \<Rightarrow> objref \<Rightarrow> pyexn + val"

definition Token_ref :: "token \<Rightarrow> objref" where
  "Token_ref self = ObjRef (tok_id self) CToken None"

definition Token_parse :: "token \<Rightarrow> string \<Rightarrow> nat \<Rightarrow> nat \<Rightarrow> result" where
  "Token_parse self source start endp =
     (case tok_pattern self source start endp of
        None \<Rightarrow> Inl (ParserNotMatchException (''cannot match '' @ tok_repr self) source start)
      | Some m \<Rightarrow>
          (case safecall (tok_mapper self m (Token_ref self)) of
             Inl e \<Rightarrow> Inl e
           | Inr v \<Rightarrow> Inr (v, m_end m)))"

definition Token_structure :: "token \<Rightarrow> structure" where
  "Token_structure self =
     \<lparr> sref = Token_ref self, srepr = tok_repr self,
       parse = Token_parse self,
       fullparse = Structure_fullparse (Token_parse self) \<rparr>"

text \<open>The default mapper of \<^verbatim>\<open>Token.bind\<close>: \<^verbatim>\<open>lambda m,t: (t, m.groups())\<close>.\<close>

definition Token_default_mapper :: "pymatch \<Rightarrow> objref \<Rightarrow> pyexn + val" where
  "Token_default_mapper m t = Inr (VTuple [VObj t, VTuple (m_groups m)])"

text \<open>
  \<^verbatim>\<open>placeholder(pattern, escape)\<close>: a Token whose mapper is \<^verbatim>\<open>lambda m,t: None\<close>.
  The arguments here are the object's identity, its rendering and the compiled pattern.
\<close>

definition placeholder :: "nat \<Rightarrow> string \<Rightarrow> pattern \<Rightarrow> token" where
  "placeholder i r p =
     \<lparr> tok_id = i, tok_repr = r, tok_pattern = p, tok_mapper = (\<lambda>m t. Inr VNone) \<rparr>"

subsection \<open>Compiled patterns used by the module and by the examples\<close>

text \<open>
  \<^verbatim>\<open>pattern.match(string, pos, endpos)\<close> clamps both offsets to the length of the string,
  finds nothing when \<^verbatim>\<open>endpos < pos\<close>, and otherwise matches at \<^verbatim>\<open>pos\<close> inside
  the window that ends at \<^verbatim>\<open>endpos\<close>.
\<close>

definition re_window :: "string \<Rightarrow> nat \<Rightarrow> nat \<Rightarrow> (nat \<times> string) option" where
  "re_window source start endp =
     (let s = min start (length source); e = min endp (length source)
      in if e < s then None else Some (s, take (e - s) (drop s source)))"

text \<open>An escaped literal, \<^verbatim>\<open>re.compile(re.escape(lit))\<close>.\<close>

definition re_literal :: "string \<Rightarrow> pattern" where
  "re_literal lit source start endp =
     (case re_window source start endp of
        None \<Rightarrow> None
      | Some (s, w) \<Rightarrow>
          if take (length lit) w = lit then Some (Match s (s + length lit) []) else None)"

text \<open>A greedy character class under a star, such as \<^verbatim>\<open>[ \t]*\<close>.\<close>

definition re_class_star :: "char list \<Rightarrow> pattern" where
  "re_class_star cs source start endp =
     (case re_window source start endp of
        None \<Rightarrow> None
      | Some (s, w) \<Rightarrow> Some (Match s (s + length (takeWhile (\<lambda>c. c \<in> set cs) w)) []))"

definition py_quote :: "string \<Rightarrow> string" where
  "py_quote s = CHR 0x27 # s @ [CHR 0x27]"

text \<open>\<^verbatim>\<open>optional_space = placeholder(r"[ \t]*")\<close>\<close>

definition optional_space :: token where
  "optional_space =
     placeholder 1 (base_repr ''Token'' (py_quote (''[ '' @ [CHR 0x5C, CHR 0x5C] @ ''t]*''))) (re_class_star [CHR '' '', CHR 0x09])"

section \<open>Sequence\<close>

record sequence =
  seq_id :: nat
  seq_repr :: string
  seqs :: "structure list"
  seq_mapper :: "val \<Rightarrow> objref \<Rightarrow> pyexn + val"
  seq_flattern :: bool

definition Sequence_ref :: "sequence \<Rightarrow> objref" where
  "Sequence_ref self = ObjRef (seq_id self) CSequence (Some (seq_flattern self))"

text \<open>
  \<^verbatim>\<open>Sequence.bind\<close>: refuses an empty argument list, otherwise stores the arguments,
  the mapper and the flag.
\<close>

definition Sequence_bind ::
  "nat \<Rightarrow> string \<Rightarrow> structure list \<Rightarrow> (val \<Rightarrow> objref \<Rightarrow> pyexn + val) \<Rightarrow> bool
   \<Rightarrow> pyexn + sequence" where
  "Sequence_bind i r args mapper flattern_flag =
     (case args of
        [] \<Rightarrow> Inl (PyException ''ValueError'')
      | a # as \<Rightarrow>
          Inr \<lparr> seq_id = i, seq_repr = r, seqs = args, seq_mapper = mapper,
                seq_flattern = flattern_flag \<rparr>)"

text \<open>The default mapper of \<^verbatim>\<open>Sequence.bind\<close>: \<^verbatim>\<open>lambda m,t: (t,m)\<close>.\<close>

definition Sequence_default_mapper :: "val \<Rightarrow> objref \<Rightarrow> pyexn + val" where
  "Sequence_default_mapper m t = Inr (VTuple [VObj t, m])"

text \<open>
  What \<^verbatim>\<open>result.extend(x)\<close> adds: the elements of a tuple or list, the characters of a
  string; anything else is not iterable.
\<close>

fun py_iter :: "val \<Rightarrow> pyexn + val list" where
  "py_iter (VTuple xs) = Inr xs"
| "py_iter (VList xs) = Inr xs"
| "py_iter (VStr s) = Inr (map (\<lambda>c. VStr [c]) s)"
| "py_iter v = Inl (PyException ''TypeError'')"

text \<open>
  One round of the loop in \<^verbatim>\<open>Sequence.flattern\<close>: what the element \<open>v\<close> adds to
  \<^verbatim>\<open>result\<close>. The test is
  \<^verbatim>\<open>isinstance(v, tuple) and isinstance(v[0], Sequence) and v[0]._flattern\<close>;
  \<^verbatim>\<open>v[0]\<close> on the empty tuple and \<^verbatim>\<open>v[1]\<close> on a one-element tuple raise
  \<^verbatim>\<open>IndexError\<close>.
\<close>

fun flattern_item :: "val \<Rightarrow> pyexn + val list" where
  "flattern_item (VTuple []) = Inl (PyException ''IndexError'')"
| "flattern_item (VTuple (VObj r # rest)) =
     (if ocls r = CSequence
      then (case oflattern r of
              None \<Rightarrow> Inl (PyException ''AttributeError'')
            | Some fl \<Rightarrow>
                if fl
                then (case rest of
                        [] \<Rightarrow> Inl (PyException ''IndexError'')
                      | x # xs \<Rightarrow> py_iter x)
                else Inr [VTuple (VObj r # rest)])
      else Inr [VTuple (VObj r # rest)])"
| "flattern_item v = Inr [v]"

fun flattern_loop :: "val list \<Rightarrow> val list \<Rightarrow> pyexn + val list" where
  "flattern_loop [] result = Inr result"
| "flattern_loop (v # vs) result =
     (case flattern_item v of
        Inl e \<Rightarrow> Inl e
      | Inr added \<Rightarrow> flattern_loop vs (result @ added))"

definition flattern :: "val list \<Rightarrow> pyexn + val" where
  "flattern value =
     (case flattern_loop value [] of Inl e \<Rightarrow> Inl e | Inr result \<Rightarrow> Inr (VTuple result))"

text \<open>
  The loop of \<^verbatim>\<open>Sequence.parse\<close>. Its arguments after the children are the source,
  \<^verbatim>\<open>start\<close>, \<^verbatim>\<open>end\<close>, and the loop variables \<^verbatim>\<open>next_pos\<close> and
  \<^verbatim>\<open>return_obj\<close>. Each child is called as
  \<^verbatim>\<open>structure.parse(source, start, end)\<close>.
\<close>

fun Sequence_loop ::
  "structure list \<Rightarrow> string \<Rightarrow> nat \<Rightarrow> nat \<Rightarrow> nat \<Rightarrow> val list \<Rightarrow> pyexn + val list \<times> nat" where
  "Sequence_loop [] source start endp next_pos return_obj = Inr (return_obj, next_pos)"
| "Sequence_loop (s # rest) source start endp next_pos return_obj =
     (case parse s source start endp of
        Inl e \<Rightarrow> Inl e
      | Inr (obj, next_pos') \<Rightarrow>
          Sequence_loop rest source start endp next_pos'
            (if obj \<noteq> VNone then return_obj @ [obj] else return_obj))"

text \<open>
  The tail shared by \<^verbatim>\<open>Sequence.parse\<close> and \<^verbatim>\<open>Sequence.fullparse\<close>:
  \<^verbatim>\<open>(_safecall(self._mapper, self.flattern(return_obj), self), next_pos)\<close>.
  The argument \<^verbatim>\<open>self.flattern(return_obj)\<close> is evaluated before \<^verbatim>\<open>_safecall\<close>
  is entered, so an exception of \<^verbatim>\<open>flattern\<close> is not handled there.
\<close>

definition Sequence_collected :: "pyexn + val list \<times> nat \<Rightarrow> pyexn + val \<times> nat" where
  "Sequence_collected looped =
     (case looped of
        Inl e \<Rightarrow> Inl e
      | Inr (return_obj, next_pos) \<Rightarrow>
          (case flattern return_obj of
             Inl e \<Rightarrow> Inl e
           | Inr tup \<Rightarrow> Inr (tup, next_pos)))"

definition Sequence_return :: "sequence \<Rightarrow> pyexn + val \<times> nat \<Rightarrow> result" where
  "Sequence_return self collected =
     (case collected of
        Inl e \<Rightarrow> Inl e
      | Inr (tup, next_pos) \<Rightarrow>
          (case safecall (seq_mapper self tup (Sequence_ref self)) of
             Inl e \<Rightarrow> Inl e
           | Inr v \<Rightarrow> Inr (v, next_pos)))"

definition Sequence_parse :: "sequence \<Rightarrow> string \<Rightarrow> nat \<Rightarrow> nat \<Rightarrow> result" where
  "Sequence_parse self source start endp =
     Sequence_return self
       (Sequence_collected (Sequence_loop (seqs self) source start endp start []))"

text \<open>
  \<^verbatim>\<open>Sequence.fullparse\<close> opens with \<^verbatim>\<open>for structure in self._seqs[-1]\<close>: the
  loop runs over the last child itself. No class of the module defines
  \<^verbatim>\<open>__iter__\<close> or \<^verbatim>\<open>__getitem__\<close>, so iterating over a structure raises
  \<^verbatim>\<open>TypeError\<close>.
\<close>

definition structure_iter :: "structure \<Rightarrow> pyexn + structure list" where
  "structure_iter s = Inl (PyException ''TypeError'')"

definition seqs_last :: "structure list \<Rightarrow> pyexn + structure" where
  "seqs_last xs = (case rev xs of [] \<Rightarrow> Inl (PyException ''IndexError'') | s # r \<Rightarrow> Inr s)"

definition Sequence_fullparse :: "sequence \<Rightarrow> string \<Rightarrow> nat \<Rightarrow> nat \<Rightarrow> result" where
  "Sequence_fullparse self source start endp =
     (case seqs_last (seqs self) of
        Inl e \<Rightarrow> Inl e
      | Inr final \<Rightarrow>
          (case structure_iter final of
             Inl e \<Rightarrow> Inl e
           | Inr children \<Rightarrow>
               (case Sequence_loop children source start endp start [] of
                  Inl e \<Rightarrow> Inl e
                | Inr (return_obj, next_pos) \<Rightarrow>
                    (case fullparse final source start endp of
                       Inl e \<Rightarrow> Inl e
                     | Inr (obj, next_pos') \<Rightarrow>
                         Sequence_return self
                           (Sequence_collected
                              (Inr (if obj \<noteq> VNone then return_obj @ [obj] else return_obj,
                                    next_pos')))))))"

definition Sequence_structure :: "sequence \<Rightarrow> structure" where
  "Sequence_structure self =
     \<lparr> sref = Sequence_ref self, srepr = seq_repr self,
       parse = Sequence_parse self,
       fullparse = Sequence_fullparse self \<rparr>"

section \<open>Switch\<close>

text \<open>
  \<^verbatim>\<open>Switch.bind\<close> stores \<^verbatim>\<open>args\<close>, the tuple of its positional arguments, as
  \<^verbatim>\<open>self._switches\<close>. The model keeps the kind of container: a tuple has neither
  \<^verbatim>\<open>append\<close> nor \<^verbatim>\<open>remove\<close>.
\<close>

datatype 'a pyseq = PyTuple "'a list" | PyList "'a list"

fun items :: "'a pyseq \<Rightarrow> 'a list" where
  "items (PyTuple xs) = xs"
| "items (PyList xs) = xs"

record switch =
  sw_id :: nat
  sw_repr :: string
  switches :: "structure pyseq"
  sw_mapper :: "val \<Rightarrow> objref \<Rightarrow> objref \<Rightarrow> pyexn + val"
  allow_nomatch :: bool

definition Switch_ref :: "switch \<Rightarrow> objref" where
  "Switch_ref self = ObjRef (sw_id self) CSwitch None"

definition Switch_bind ::
  "nat \<Rightarrow> string \<Rightarrow> structure list \<Rightarrow> (val \<Rightarrow> objref \<Rightarrow> objref \<Rightarrow> pyexn + val) \<Rightarrow> bool
   \<Rightarrow> switch" where
  "Switch_bind i r args mapper allow =
     \<lparr> sw_id = i, sw_repr = r, switches = PyTuple args, sw_mapper = mapper,
       allow_nomatch = allow \<rparr>"

text \<open>The default mapper of \<^verbatim>\<open>Switch.bind\<close>: \<^verbatim>\<open>lambda o,m,t: o\<close>.\<close>

definition Switch_default_mapper :: "val \<Rightarrow> objref \<Rightarrow> objref \<Rightarrow> pyexn + val" where
  "Switch_default_mapper o' m t = Inr o'"

text \<open>
  \<^verbatim>\<open>structure not in self._switches\<close>: the classes define no \<^verbatim>\<open>__eq__\<close>, so
  membership compares object identities.
\<close>

fun contains :: "structure list \<Rightarrow> structure \<Rightarrow> bool" where
  "contains [] x = False"
| "contains (y # ys) x = (if oid (sref y) = oid (sref x) then True else contains ys x)"

fun remove_first :: "structure list \<Rightarrow> structure \<Rightarrow> pyexn + structure list" where
  "remove_first [] x = Inl (PyException ''ValueError'')"
| "remove_first (y # ys) x =
     (if oid (sref y) = oid (sref x) then Inr ys
      else (case remove_first ys x of Inl e \<Rightarrow> Inl e | Inr r \<Rightarrow> Inr (y # r)))"

definition py_append :: "structure pyseq \<Rightarrow> structure \<Rightarrow> pyexn + structure pyseq" where
  "py_append c x =
     (case c of
        PyTuple xs \<Rightarrow> Inl (PyException ''AttributeError'')
      | PyList xs \<Rightarrow> Inr (PyList (xs @ [x])))"

definition py_remove :: "structure pyseq \<Rightarrow> structure \<Rightarrow> pyexn + structure pyseq" where
  "py_remove c x =
     (case c of
        PyTuple xs \<Rightarrow> Inl (PyException ''AttributeError'')
      | PyList xs \<Rightarrow> (case remove_first xs x of Inl e \<Rightarrow> Inl e | Inr r \<Rightarrow> Inr (PyList r)))"

text \<open>\<^verbatim>\<open>Switch.add\<close> and \<^verbatim>\<open>Switch.remove\<close>: the switch after the call, or the exception.\<close>

definition Switch_add :: "switch \<Rightarrow> structure \<Rightarrow> pyexn + switch" where
  "Switch_add self s =
     (if \<not> contains (items (switches self)) s
      then (case py_append (switches self) s of
              Inl e \<Rightarrow> Inl e
            | Inr c \<Rightarrow> Inr (self\<lparr>switches := c\<rparr>))
      else Inr self)"

definition Switch_remove :: "switch \<Rightarrow> structure \<Rightarrow> pyexn + switch" where
  "Switch_remove self s =
     (case py_remove (switches self) s of
        Inl e \<Rightarrow> Inl e
      | Inr c \<Rightarrow> Inr (self\<lparr>switches := c\<rparr>))"

text \<open>
  The \<^verbatim>\<open>for ... try ... except ParserNotMatchException: pass ... else: break\<close> loop of
  \<^verbatim>\<open>Switch.parse\<close> and \<^verbatim>\<open>Switch.fullparse\<close>; \<open>meth\<close> is the method called on
  each alternative. The loop ends with the exception that was not caught, with
  \<open>Inr None\<close> when it runs out of alternatives (the \<^verbatim>\<open>else\<close> clause of the
  \<^verbatim>\<open>for\<close>), or with the values of \<^verbatim>\<open>obj\<close>, \<^verbatim>\<open>next_start\<close> and
  \<^verbatim>\<open>s\<close> at the \<^verbatim>\<open>break\<close>.
\<close>

fun Switch_loop ::
  "(structure \<Rightarrow> string \<Rightarrow> nat \<Rightarrow> nat \<Rightarrow> result) \<Rightarrow> structure list \<Rightarrow> string \<Rightarrow> nat \<Rightarrow> nat
   \<Rightarrow> pyexn + (val \<times> nat \<times> structure) option" where
  "Switch_loop meth [] source start endp = Inr None"
| "Switch_loop meth (s # rest) source start endp =
     (case meth s source start endp of
        Inr (obj, next_start) \<Rightarrow> Inr (Some (obj, next_start, s))
      | Inl e \<Rightarrow>
          if isinstance_ParserNotMatchException e
          then Switch_loop meth rest source start endp
          else Inl e)"

text \<open>
  Where the loop runs out of alternatives and no value may be returned, both methods have
  the statement
  \<^verbatim>\<open>raise ParserNotMatchException("No valid match for " repr(self), source, start, end)\<close>
  (\<^verbatim>\<open>"No valid full match for "\<close> in \<^verbatim>\<open>fullparse\<close>, twice). Its argument list is
  malformed as written: no operator stands between the literal and \<^verbatim>\<open>repr(self)\<close>,
  and it lists one argument more than the three of the constructor. The model follows what
  the statement names: the class \<^verbatim>\<open>ParserNotMatchException\<close>, the message made of the
  literal and \<^verbatim>\<open>repr(self)\<close>, \<^verbatim>\<open>source\<close> and \<^verbatim>\<open>start\<close>.
\<close>

definition Switch_return :: "switch \<Rightarrow> val \<Rightarrow> nat \<Rightarrow> structure \<Rightarrow> result" where
  "Switch_return self obj next_start s =
     (case safecall (sw_mapper self obj (sref s) (Switch_ref self)) of
        Inl e \<Rightarrow> Inl e
      | Inr v \<Rightarrow> Inr (v, next_start))"

definition Switch_parse :: "switch \<Rightarrow> string \<Rightarrow> nat \<Rightarrow> nat \<Rightarrow> result" where
  "Switch_parse self source start endp =
     (case Switch_loop parse (items (switches self)) source start endp of
        Inl e \<Rightarrow> Inl e
      | Inr None \<Rightarrow>
          if allow_nomatch self then Inr (VNone, start)
          else Inl (ParserNotMatchException (''No valid match for '' @ sw_repr self)
                      source start)
      | Inr (Some (obj, next_start, s)) \<Rightarrow> Switch_return self obj next_start s)"

definition Switch_fullparse :: "switch \<Rightarrow> string \<Rightarrow> nat \<Rightarrow> nat \<Rightarrow> result" where
  "Switch_fullparse self source start endp =
     (case Switch_loop fullparse (items (switches self)) source start endp of
        Inl e \<Rightarrow> Inl e
      | Inr None \<Rightarrow>
          if allow_nomatch self
          then (if start = endp then Inr (VNone, start)
                else Inl (ParserNotMatchException (''No valid full match for '' @ sw_repr self)
                            source start))
          else Inl (ParserNotMatchException (''No valid full match for '' @ sw_repr self)
                      source start)
      | Inr (Some (obj, next_start, s)) \<Rightarrow> Switch_return self obj next_start s)"

definition Switch_structure :: "switch \<Rightarrow> structure" where
  "Switch_structure self =
     \<lparr> sref = Switch_ref self, srepr = sw_repr self,
       parse = Switch_parse self,
       fullparse = Switch_fullparse self \<rparr>"

text \<open>Observers of a result, used to state what kind of outcome a call has.\<close>

fun raises_nomatch :: "result \<Rightarrow> bool" where
  "raises_nomatch (Inl e) = isinstance_ParserNotMatchException e"
| "raises_nomatch (Inr r) = False"


fun raises :: "result \<Rightarrow> bool" where
  "raises (Inl e) = True"
| "raises (Inr r) = False"

section \<open>Example structures\<close>

text \<open>\<^verbatim>\<open>Token("a")\<close> and \<^verbatim>\<open>Token("b")\<close> with the default mapper.\<close>

definition tokA :: token where
  "tokA = \<lparr> tok_id = 10, tok_repr = base_repr ''Token'' (py_quote ''a''),
            tok_pattern = re_literal ''a'', tok_mapper = Token_default_mapper \<rparr>"

definition tokB :: token where
  "tokB = \<lparr> tok_id = 11, tok_repr = base_repr ''Token'' (py_quote ''b''),
            tok_pattern = re_literal ''b'', tok_mapper = Token_default_mapper \<rparr>"

text \<open>\<^verbatim>\<open>Token("a", mapper=lambda m,t: 1/0)\<close>: the mapper raises \<^verbatim>\<open>ZeroDivisionError\<close>.\<close>

definition tokDiv :: token where
  "tokDiv = \<lparr> tok_id = 12, tok_repr = base_repr ''Token'' (py_quote ''a''),
              tok_pattern = re_literal ''a'',
              tok_mapper = (\<lambda>m t. Inl (PyException ''ZeroDivisionError'')) \<rparr>"

text \<open>Three tokens for the same pattern \<^verbatim>\<open>a\<close>, told apart by what their mappers return.\<close>

definition tokOne :: token where
  "tokOne = \<lparr> tok_id = 13, tok_repr = base_repr ''Token'' (py_quote ''a''),
              tok_pattern = re_literal ''a'', tok_mapper = (\<lambda>m t. Inr (VInt 1)) \<rparr>"

definition tokTwo :: token where
  "tokTwo = \<lparr> tok_id = 14, tok_repr = base_repr ''Token'' (py_quote ''a''),
              tok_pattern = re_literal ''a'', tok_mapper = (\<lambda>m t. Inr (VInt 2)) \<rparr>"

definition tokThree :: token where
  "tokThree = \<lparr> tok_id = 15, tok_repr = base_repr ''Token'' (py_quote ''a''),
                tok_pattern = re_literal ''a'', tok_mapper = (\<lambda>m t. Inr (VInt 3)) \<rparr>"

text \<open>A token whose mapper raises \<^verbatim>\<open>ParserFatalException("stop", "a", 0)\<close> itself.\<close>

definition tokFatal :: token where
  "tokFatal = \<lparr> tok_id = 16, tok_repr = base_repr ''Token'' (py_quote ''a''),
                tok_pattern = re_literal ''a'',
                tok_mapper = (\<lambda>m t. Inl (ParserFatalException ''stop'' ''a'' 0)) \<rparr>"

text \<open>\<^verbatim>\<open>placeholder("a", True)\<close>\<close>

definition holeA :: token where
  "holeA = placeholder 17 (base_repr ''Token'' (py_quote ''a'')) (re_literal ''a'')"

text \<open>\<^verbatim>\<open>Sequence(Token("a"), Token("b"))\<close>\<close>

definition seqAB :: sequence where
  "seqAB = \<lparr> seq_id = 20, seq_repr = base_repr ''Sequence'' (py_quote ''ab''),
             seqs = [Token_structure tokA, Token_structure tokB],
             seq_mapper = Sequence_default_mapper, seq_flattern = False \<rparr>"

text \<open>A sequence with placeholders in first, middle and last position.\<close>

definition seqHoles :: sequence where
  "seqHoles = \<lparr> seq_id = 21, seq_repr = base_repr ''Sequence'' (py_quote ''holes''),
                seqs = [Token_structure holeA, Token_structure tokOne, Token_structure holeA,
                        Token_structure tokTwo, Token_structure holeA],
                seq_mapper = Sequence_default_mapper, seq_flattern = False \<rparr>"

text \<open>
  \<^verbatim>\<open>S1 = Sequence(a, b, flattern=True)\<close> and \<^verbatim>\<open>S2 = Sequence(S1, c)\<close>, and the same
  pair with \<^verbatim>\<open>flattern=False\<close> on the inner sequence.
\<close>

definition seqInner :: sequence where
  "seqInner = \<lparr> seq_id = 22, seq_repr = base_repr ''Sequence'' (py_quote ''inner''),
                seqs = [Token_structure tokOne, Token_structure tokTwo],
                seq_mapper = Sequence_default_mapper, seq_flattern = True \<rparr>"

definition seqOuter :: sequence where
  "seqOuter = \<lparr> seq_id = 23, seq_repr = base_repr ''Sequence'' (py_quote ''outer''),
                seqs = [Sequence_structure seqInner, Token_structure tokThree],
                seq_mapper = Sequence_default_mapper, seq_flattern = False \<rparr>"

definition seqInnerNested :: sequence where
  "seqInnerNested = \<lparr> seq_id = 24, seq_repr = base_repr ''Sequence'' (py_quote ''inner''),
                seqs = [Token_structure tokOne, Token_structure tokTwo],
                seq_mapper = Sequence_default_mapper, seq_flattern = False \<rparr>"

definition seqOuterNested :: sequence where
  "seqOuterNested = \<lparr> seq_id = 25, seq_repr = base_repr ''Sequence'' (py_quote ''outer''),
                seqs = [Sequence_structure seqInnerNested, Token_structure tokThree],
                seq_mapper = Sequence_default_mapper, seq_flattern = False \<rparr>"

text \<open>
  Switches: two alternatives for the same pattern behind one that does not match; a fatal
  alternative in front of a matching one; and \<^verbatim>\<open>Switch(Token("a"), allow_nomatch=True)\<close>.
\<close>

definition swOverlap :: switch where
  "swOverlap = Switch_bind 30 (base_repr ''Switch'' (py_quote ''overlap''))
       [Token_structure tokB, Token_structure tokOne, Token_structure tokTwo]
       Switch_default_mapper False"

definition swFatal :: switch where
  "swFatal = Switch_bind 31 (base_repr ''Switch'' (py_quote ''fatal''))
       [Token_structure tokB, Token_structure tokFatal, Token_structure tokTwo]
       Switch_default_mapper False"

definition swOpt :: switch where
  "swOpt = Switch_bind 32 (base_repr ''Switch'' (py_quote ''opt''))
       [Token_structure tokA] Switch_default_mapper True"

section \<open>Unfolding rules\<close>

lemmas token_defs = Token_structure_def Token_parse_def Token_ref_def Token_default_mapper_def
  re_literal_def re_class_star_def re_window_def safecall_def Structure_fullparse_def

lemmas sequence_defs = Sequence_parse_def Sequence_collected_def Sequence_return_def
  Sequence_ref_def Sequence_default_mapper_def flattern_def Sequence_structure_def

section \<open>Token\<close>

text \<open>
  C5. When the pattern matches at \<open>start\<close> with the match ending at \<open>m_end m\<close> and the
  mapper returns \<open>v\<close>, \<open>parse\<close> returns \<open>(v, m_end m)\<close>; when the pattern does not
  match, \<open>parse\<close> raises the recoverable no-match exception positioned at \<open>start\<close>.
  Both hold for every \<open>start\<close> and \<open>endp\<close>.
\<close>

theorem Token_parse_match_nomatch:
  "(tok_pattern self source start endp = Some m \<and> tok_mapper self m (Token_ref self) = Inr v
      \<longrightarrow> Token_parse self source start endp = Inr (v, m_end m))
   \<and> (tok_pattern self source start endp = None
      \<longrightarrow> Token_parse self source start endp
          = Inl (ParserNotMatchException (''cannot match '' @ tok_repr self) source start))"
  by (simp add: Token_parse_def safecall_def)

lemma tokA_match_ab: "tok_pattern tokA ''ab'' 0 2 = Some (Match 0 1 [])"
  by (simp add: tokA_def re_literal_def re_window_def)

lemma tokB_nomatch_ab: "tok_pattern tokB ''ab'' 0 2 = None"
  by (simp add: tokB_def re_literal_def re_window_def)

theorem Token_parse_match_nomatch_witness:
  "Token_parse tokA ''ab'' 0 2 = Inr (VTuple [VObj (ObjRef 10 CToken None), VTuple []], 1)
   \<and> Token_parse tokB ''ab'' 0 2
       = Inl (ParserNotMatchException (''cannot match '' @ tok_repr tokB) ''ab'' 0)"
proof -
  have ma: "tok_mapper tokA (Match 0 1 []) (Token_ref tokA)
            = Inr (VTuple [VObj (ObjRef 10 CToken None), VTuple []])"
    by (simp add: tokA_def Token_default_mapper_def Token_ref_def)
  from Token_parse_match_nomatch [of tokA "''ab''" 0 2 "Match 0 1 []"
      "VTuple [VObj (ObjRef 10 CToken None), VTuple []]"] tokA_match_ab ma
  have a: "Token_parse tokA ''ab'' 0 2
           = Inr (VTuple [VObj (ObjRef 10 CToken None), VTuple []], 1)"
    by simp
  from Token_parse_match_nomatch [of tokB "''ab''" 0 2] tokB_nomatch_ab
  have b: "Token_parse tokB ''ab'' 0 2
           = Inl (ParserNotMatchException (''cannot match '' @ tok_repr tokB) ''ab'' 0)"
    by simp
  from a b show ?thesis by simp
qed

text \<open>
  C10. A token whose pattern matches at \<open>start\<close> with a match that ends at \<open>start\<close>
  succeeds and returns \<open>start\<close> as the next position: a successful \<open>parse\<close> need not
  advance the cursor.
\<close>

theorem Token_parse_zero_width:
  assumes "tok_pattern self source start endp = Some m"
    and "m_end m = start"
    and "tok_mapper self m (Token_ref self) = Inr v"
  shows "Token_parse self source start endp = Inr (v, start)"
  using assms by (simp add: Token_parse_def safecall_def)

lemma optional_space_pattern_abc:
  "tok_pattern optional_space ''abc'' 0 3 = Some (Match 0 0 [])"
  by (simp add: optional_space_def placeholder_def re_class_star_def re_window_def)

theorem Token_parse_zero_width_witness:
  "Token_parse optional_space ''abc'' 0 3 = Inr (VNone, 0)"
proof -
  have "m_end (Match 0 0 []) = 0" by simp
  moreover have "tok_mapper optional_space (Match 0 0 []) (Token_ref optional_space) = Inr VNone"
    by (simp add: optional_space_def placeholder_def)
  ultimately show ?thesis
    using Token_parse_zero_width [OF optional_space_pattern_abc] by simp
qed

text \<open>\<^verbatim>\<open>optional_space\<close> succeeds on every input span.\<close>

lemma optional_space_always_succeeds:
  "start \<le> endp \<Longrightarrow> \<exists>k. Token_parse optional_space source start endp = Inr (VNone, k)"
  by (simp add: optional_space_def placeholder_def Token_parse_def re_class_star_def
      re_window_def safecall_def Let_def min_def)

text \<open>
  C3. The mapper of \<open>tokDiv\<close> raises \<^verbatim>\<open>ZeroDivisionError\<close> on a matching input.
  \<open>parse\<close> does not turn it into a \<^verbatim>\<open>ParserFatalException\<close> at position 0:
  the handler of \<^verbatim>\<open>_safecall\<close> fails on its undefined names and \<^verbatim>\<open>NameError\<close>
  leaves \<open>parse\<close>.
\<close>

theorem Token_parse_mapper_error_escapes:
  "Token_parse tokDiv ''a'' 0 1 = Inl (PyException ''NameError'')"
  by (simp add: tokDiv_def Token_parse_def re_literal_def re_window_def safecall_def)

text \<open>
  The same for every token and every mapper exception that is an \<^verbatim>\<open>Exception\<close>, not a
  parser exception, and whose \<^verbatim>\<open>str\<close> returns.
\<close>

lemma Token_parse_never_wraps:
  assumes "tok_pattern self source start endp = Some m"
    and "tok_mapper self m (Token_ref self) = Inl (PyException c)"
  shows "Token_parse self source start endp = Inl (PyException ''NameError'')"
  using assms by (simp add: Token_parse_def safecall_def)

section \<open>Sequence\<close>

text \<open>
  C1. In \<^verbatim>\<open>Sequence(Token("a"), Token("b")).parse("ab", 0, 2)\<close> the first child ends at
  1 and the second child would match from 1 to 2, but the sequence raises the second child's
  no-match exception at position 0: the second child is called at the sequence's
  \<open>start\<close>, not at the position the first child returned.
\<close>

theorem Sequence_parse_restarts_children:
  "Token_parse tokA ''ab'' 0 2 = Inr (VTuple [VObj (Token_ref tokA), VTuple []], 1)
   \<and> Token_parse tokB ''ab'' 1 2 = Inr (VTuple [VObj (Token_ref tokB), VTuple []], 2)
   \<and> Sequence_parse seqAB ''ab'' 0 2
       = Inl (ParserNotMatchException (''cannot match '' @ tok_repr tokB) ''ab'' 0)"
  by (simp add: tokA_def tokB_def seqAB_def token_defs sequence_defs)

text \<open>
  The loop reads its children only through their \<open>parse\<close> at \<open>start\<close>: children that
  agree there are interchangeable, whatever they do at other positions.
\<close>

lemma Sequence_loop_only_at_start:
  assumes "\<forall>c \<in> set cs. parse (f c) source start endp = parse c source start endp"
  shows "Sequence_loop (map f cs) source start endp next_pos return_obj
         = Sequence_loop cs source start endp next_pos return_obj"
  using assms
proof (induction cs arbitrary: next_pos return_obj)
  case Nil
  show ?case by simp
next
  case (Cons c cs)
  then show ?case
    by (cases "parse c source start endp") (auto split: prod.splits)
qed

text \<open>
  C2. \<open>seqAB\<close> is what \<^verbatim>\<open>bind\<close> builds from two tokens, and its \<open>fullparse\<close> on
  \<^verbatim>\<open>"ab"\<close> from 0 to 2 raises \<^verbatim>\<open>TypeError\<close>: no child is parsed and nothing is
  returned.
\<close>

theorem Sequence_fullparse_raises_TypeError:
  "Sequence_bind 20 (base_repr ''Sequence'' (py_quote ''ab''))
       [Token_structure tokA, Token_structure tokB] Sequence_default_mapper False = Inr seqAB
   \<and> Sequence_fullparse seqAB ''ab'' 0 2 = Inl (PyException ''TypeError'')"
  by (simp add: Sequence_bind_def seqAB_def Sequence_fullparse_def seqs_last_def
      structure_iter_def)

text \<open>Every bound sequence behaves so, on every input.\<close>

lemma Sequence_fullparse_bound_raises:
  assumes "Sequence_bind i r args mapper fl = Inr self"
  shows "Sequence_fullparse self source start endp = Inl (PyException ''TypeError'')"
proof -
  from assms obtain a as where "seqs self = a # as"
    by (auto simp: Sequence_bind_def split: list.splits)
  then obtain final where "seqs_last (seqs self) = Inr final"
    by (cases "rev (a # as)") (auto simp: seqs_last_def)
  then show ?thesis
    by (simp add: Sequence_fullparse_def structure_iter_def)
qed

subsection \<open>The collected values\<close>

lemma Sequence_loop_values:
  "(Sequence_loop cs source start endp next_pos return_obj = Inr (objs, np))
   = (\<exists>rs. list_all2 (\<lambda>c r. parse c source start endp = Inr r) cs rs
          \<and> objs = return_obj @ filter (\<lambda>v. v \<noteq> VNone) (map fst rs)
          \<and> np = last (next_pos # map snd rs))"
proof (induction cs arbitrary: next_pos return_obj)
  case Nil
  show ?case by auto
next
  case (Cons c cs)
  let ?Q = "\<lambda>c r. parse c source start endp = Inr r"
  show ?case
  proof (cases "parse c source start endp")
    case (Inl e)
    have "\<not> list_all2 ?Q (c # cs) rs" for rs
      using Inl by (simp add: list_all2_Cons1)
    then show ?thesis using Inl by simp
  next
    case (Inr r)
    obtain obj p where r: "r = (obj, p)" by (cases r)
    let ?acc = "if obj \<noteq> VNone then return_obj @ [obj] else return_obj"
    have step: "Sequence_loop (c # cs) source start endp next_pos return_obj
                = Sequence_loop cs source start endp p ?acc"
      using Inr r by simp
    show ?thesis
    proof
      assume "Sequence_loop (c # cs) source start endp next_pos return_obj = Inr (objs, np)"
      then have "Sequence_loop cs source start endp p ?acc = Inr (objs, np)"
        using step by simp
      then obtain rs where rs: "list_all2 ?Q cs rs"
          "objs = ?acc @ filter (\<lambda>v. v \<noteq> VNone) (map fst rs)"
          "np = last (p # map snd rs)"
        using Cons.IH [of p ?acc] by blast
      have "list_all2 ?Q (c # cs) ((obj, p) # rs)" using rs(1) Inr r by simp
      moreover have "objs = return_obj @ filter (\<lambda>v. v \<noteq> VNone) (map fst ((obj, p) # rs))"
        using rs(2) by simp
      moreover have "np = last (next_pos # map snd ((obj, p) # rs))"
        using rs(3) by simp
      ultimately show "\<exists>rs. list_all2 ?Q (c # cs) rs
          \<and> objs = return_obj @ filter (\<lambda>v. v \<noteq> VNone) (map fst rs)
          \<and> np = last (next_pos # map snd rs)"
        by blast
    next
      assume "\<exists>rs. list_all2 ?Q (c # cs) rs
          \<and> objs = return_obj @ filter (\<lambda>v. v \<noteq> VNone) (map fst rs)
          \<and> np = last (next_pos # map snd rs)"
      then obtain rs where rs: "list_all2 ?Q (c # cs) rs"
          "objs = return_obj @ filter (\<lambda>v. v \<noteq> VNone) (map fst rs)"
          "np = last (next_pos # map snd rs)"
        by blast
      from rs(1) obtain z zs where z: "rs = z # zs" "?Q c z" "list_all2 ?Q cs zs"
        by (auto simp: list_all2_Cons1)
      from z(2) Inr r have zeq: "z = (obj, p)" by simp
      have "objs = ?acc @ filter (\<lambda>v. v \<noteq> VNone) (map fst zs)"
        using rs(2) z(1) zeq by simp
      moreover have "np = last (p # map snd zs)"
        using rs(3) z(1) zeq by simp
      ultimately have "Sequence_loop cs source start endp p ?acc = Inr (objs, np)"
        using Cons.IH [of p ?acc] z(3) by blast
      then show "Sequence_loop (c # cs) source start endp next_pos return_obj = Inr (objs, np)"
        using step by simp
    qed
  qed
qed

lemma safecall_returns: "(safecall outcome = Inr v) = (outcome = Inr v)"
proof (cases outcome)
  case (Inl exc)
  then show ?thesis
    by (cases "str_raises exc") (simp_all add: safecall_def)
next
  case (Inr w)
  then show ?thesis by (simp add: safecall_def)
qed

text \<open>
  C8. \<open>parse\<close> of a sequence returns \<open>(v, np)\<close> exactly when every child returns a
  result, one \<open>(value, position)\<close> per child in \<open>rs\<close>, and the mapper returns \<open>v\<close> for
  the tuple that \<^verbatim>\<open>flattern\<close> makes of the children's values with every \<^verbatim>\<open>None\<close>
  left out, wherever it stands: before flattening, a child that produced \<^verbatim>\<open>None\<close>
  adds no element and every other child adds exactly one.
\<close>

theorem Sequence_parse_drops_None:
  "(Sequence_parse self source start endp = Inr (v, np))
   = (\<exists>rs tup. list_all2 (\<lambda>c r. parse c source start endp = Inr r) (seqs self) rs
          \<and> flattern (filter (\<lambda>x. x \<noteq> VNone) (map fst rs)) = Inr tup
          \<and> seq_mapper self tup (Sequence_ref self) = Inr v
          \<and> np = last (start # map snd rs))"
proof
  assume ok: "Sequence_parse self source start endp = Inr (v, np)"
  obtain objs p where loop: "Sequence_loop (seqs self) source start endp start [] = Inr (objs, p)"
    using ok
    by (cases "Sequence_loop (seqs self) source start endp start []")
      (auto simp: Sequence_parse_def Sequence_collected_def Sequence_return_def)
  obtain tup where tup: "flattern objs = Inr tup"
    using ok loop
    by (cases "flattern objs")
      (auto simp: Sequence_parse_def Sequence_collected_def Sequence_return_def)
  have "safecall (seq_mapper self tup (Sequence_ref self)) = Inr v \<and> np = p"
    using ok loop tup
    by (cases "safecall (seq_mapper self tup (Sequence_ref self))")
      (auto simp: Sequence_parse_def Sequence_collected_def Sequence_return_def)
  then have call: "seq_mapper self tup (Sequence_ref self) = Inr v" and np: "np = p"
    by (simp_all add: safecall_returns)
  obtain rs where rs: "list_all2 (\<lambda>c r. parse c source start endp = Inr r) (seqs self) rs"
      "objs = filter (\<lambda>x. x \<noteq> VNone) (map fst rs)"
      "p = last (start # map snd rs)"
    using loop Sequence_loop_values [of "seqs self" source start endp start "[]" objs p]
    by auto
  show "\<exists>rs tup. list_all2 (\<lambda>c r. parse c source start endp = Inr r) (seqs self) rs
          \<and> flattern (filter (\<lambda>x. x \<noteq> VNone) (map fst rs)) = Inr tup
          \<and> seq_mapper self tup (Sequence_ref self) = Inr v
          \<and> np = last (start # map snd rs)"
    using rs tup call np by blast
next
  assume "\<exists>rs tup. list_all2 (\<lambda>c r. parse c source start endp = Inr r) (seqs self) rs
          \<and> flattern (filter (\<lambda>x. x \<noteq> VNone) (map fst rs)) = Inr tup
          \<and> seq_mapper self tup (Sequence_ref self) = Inr v
          \<and> np = last (start # map snd rs)"
  then obtain rs tup where
      rs: "list_all2 (\<lambda>c r. parse c source start endp = Inr r) (seqs self) rs"
      and tup: "flattern (filter (\<lambda>x. x \<noteq> VNone) (map fst rs)) = Inr tup"
      and call: "seq_mapper self tup (Sequence_ref self) = Inr v"
      and np: "np = last (start # map snd rs)"
    by blast
  have "Sequence_loop (seqs self) source start endp start []
        = Inr (filter (\<lambda>x. x \<noteq> VNone) (map fst rs), last (start # map snd rs))"
    using rs Sequence_loop_values [of "seqs self" source start endp start "[]"
        "filter (\<lambda>x. x \<noteq> VNone) (map fst rs)" "last (start # map snd rs)"]
    by auto
  then show "Sequence_parse self source start endp = Inr (v, np)"
    using tup call np
    by (simp add: Sequence_parse_def Sequence_collected_def Sequence_return_def safecall_def)
qed

theorem Sequence_parse_drops_None_witness:
  "Sequence_parse seqHoles ''a'' 0 1
   = Inr (VTuple [VObj (ObjRef 21 CSequence (Some False)), VTuple [VInt 1, VInt 2]], 1)"
proof -
  have rs: "list_all2 (\<lambda>c r. parse c ''a'' 0 1 = Inr r) (seqs seqHoles)
          [(VNone, 1), (VInt 1, 1), (VNone, 1), (VInt 2, 1), (VNone, 1)]"
    by (simp add: seqHoles_def holeA_def tokOne_def tokTwo_def placeholder_def token_defs)
  have tup: "flattern (filter (\<lambda>x. x \<noteq> VNone)
                 (map fst [(VNone, 1::nat), (VInt 1, 1), (VNone, 1), (VInt 2, 1), (VNone, 1)]))
             = Inr (VTuple [VInt 1, VInt 2])"
    by (simp add: flattern_def)
  have call: "seq_mapper seqHoles (VTuple [VInt 1, VInt 2]) (Sequence_ref seqHoles)
              = Inr (VTuple [VObj (ObjRef 21 CSequence (Some False)), VTuple [VInt 1, VInt 2]])"
    by (simp add: seqHoles_def Sequence_default_mapper_def Sequence_ref_def)
  have np: "(1::nat) = last (0 # map snd
                 [(VNone, 1::nat), (VInt 1, 1), (VNone, 1), (VInt 2, 1), (VNone, 1)])"
    by simp
  show ?thesis
    using Sequence_parse_drops_None [of seqHoles "''a''" 0 1
        "VTuple [VObj (ObjRef 21 CSequence (Some False)), VTuple [VInt 1, VInt 2]]" 1]
      rs tup call np
    by blast
qed

subsection \<open>Flattening\<close>

lemma flattern_loop_acc:
  "flattern_loop vs result
   = (case flattern_loop vs [] of Inl e \<Rightarrow> Inl e | Inr r \<Rightarrow> Inr (result @ r))"
proof (induction vs arbitrary: result)
  case Nil
  show ?case by simp
next
  case (Cons v vs)
  show ?case
  proof (cases "flattern_item v")
    case (Inl e)
    then show ?thesis by simp
  next
    case (Inr added)
    show ?thesis
      using Inr Cons.IH [of "result @ added"] Cons.IH [of added]
      by (simp split: sum.splits)
  qed
qed

lemma flattern_loop_append:
  "flattern_loop (xs @ ys) result
   = (case flattern_loop xs result of Inl e \<Rightarrow> Inl e | Inr r \<Rightarrow> flattern_loop ys r)"
proof (induction xs arbitrary: result)
  case Nil
  show ?case by simp
next
  case (Cons v vs)
  show ?case
    by (cases "flattern_item v") (simp_all add: Cons.IH)
qed

lemma Sequence_loop_append:
  "Sequence_loop (xs @ ys) source start endp next_pos return_obj
   = (case Sequence_loop xs source start endp next_pos return_obj of
        Inl e \<Rightarrow> Inl e
      | Inr (objs, np) \<Rightarrow> Sequence_loop ys source start endp np objs)"
proof (induction xs arbitrary: next_pos return_obj)
  case Nil
  show ?case by simp
next
  case (Cons c cs)
  show ?case
  proof (cases "parse c source start endp")
    case (Inl e)
    then show ?thesis by simp
  next
    case (Inr r)
    obtain obj p where r: "r = (obj, p)" by (cases r)
    show ?thesis using Inr r by (simp add: Cons.IH)
  qed
qed

lemma Sequence_loop_acc:
  "Sequence_loop cs source start endp next_pos return_obj
   = (case Sequence_loop cs source start endp next_pos [] of
        Inl e \<Rightarrow> Inl e
      | Inr (objs, np) \<Rightarrow> Inr (return_obj @ objs, np))"
proof (induction cs arbitrary: next_pos return_obj)
  case Nil
  show ?case by simp
next
  case (Cons c cs)
  show ?case
  proof (cases "parse c source start endp")
    case (Inl e)
    then show ?thesis by simp
  next
    case (Inr r)
    obtain obj p where r: "r = (obj, p)" by (cases r)
    show ?thesis
      using Inr r Cons.IH [of p "return_obj @ [obj]"] Cons.IH [of p "[obj]"]
        Cons.IH [of p return_obj]
      by (simp split: sum.splits)
  qed
qed

text \<open>What the result of a default-mapper sequence adds in its parent's \<^verbatim>\<open>flattern\<close>.\<close>

lemma flattern_item_Sequence_result:
  "flattern_item (VTuple [VObj (Sequence_ref s), VTuple xs])
   = Inr (if seq_flattern s then xs else [VTuple [VObj (Sequence_ref s), VTuple xs]])"
  by (simp add: Sequence_ref_def)

lemma Sequence_parse_default:
  assumes "seq_mapper s = Sequence_default_mapper"
    and "Sequence_collected (Sequence_loop (seqs s) source start endp start []) = Inr (tup, p)"
  shows "Sequence_parse s source start endp = Inr (VTuple [VObj (Sequence_ref s), tup], p)"
  using assms
  by (simp add: Sequence_parse_def Sequence_return_def Sequence_default_mapper_def safecall_def)

text \<open>
  C7. Let the sequence \<open>s1\<close> use the default mapper and collect the tuple \<open>xs\<close>, and let
  it be a child of \<open>s2\<close>, between the children \<open>before\<close> (whose values flatten to
  \<open>fas\<close>) and \<open>after\<close> (whose values flatten to \<open>fbs\<close>). Then the tuple that \<open>s2\<close>
  hands to its mapper is \<open>fas\<close>, then the elements of \<open>xs\<close> one by one when the flag
  of \<open>s1\<close> is set, or the single nested item \<open>(s1, xs)\<close> when it is not, then \<open>fbs\<close>.
\<close>

theorem Sequence_flattern_law:
  assumes "seq_mapper s1 = Sequence_default_mapper"
    and "Sequence_collected (Sequence_loop (seqs s1) source start endp start [])
         = Inr (VTuple xs, p1)"
    and "seqs s2 = before @ Sequence_structure s1 # after"
    and "Sequence_loop before source start endp start [] = Inr (as, pa)"
    and "Sequence_loop after source start endp p1 [] = Inr (bs, pb)"
    and "flattern_loop as [] = Inr fas"
    and "flattern_loop bs [] = Inr fbs"
  shows "Sequence_parse s2 source start endp
         = Sequence_return s2
             (Inr (VTuple (fas
                           @ (if seq_flattern s1 then xs
                              else [VTuple [VObj (Sequence_ref s1), VTuple xs]])
                           @ fbs), pb))"
proof -
  let ?v = "VTuple [VObj (Sequence_ref s1), VTuple xs]"
  let ?mid = "if seq_flattern s1 then xs else [?v]"
  have child: "parse (Sequence_structure s1) source start endp = Inr (?v, p1)"
    using Sequence_parse_default [OF assms(1) assms(2)]
    by (simp add: Sequence_structure_def)
  have tail: "Sequence_loop after source start endp p1 (as @ [?v]) = Inr (as @ [?v] @ bs, pb)"
    using Sequence_loop_acc [of after source start endp p1 "as @ [?v]"] assms(5) by simp
  have "Sequence_loop (Sequence_structure s1 # after) source start endp pa as
        = Inr (as @ [?v] @ bs, pb)"
    using child tail by simp
  then have loop: "Sequence_loop (seqs s2) source start endp start []
                   = Inr (as @ [?v] @ bs, pb)"
    using assms(3) assms(4)
      Sequence_loop_append [of before "Sequence_structure s1 # after" source start endp start "[]"]
    by simp
  have f1: "flattern_loop (?v # bs) fas = Inr (fas @ ?mid @ fbs)"
    using flattern_item_Sequence_result [of s1 xs]
      flattern_loop_acc [of bs "fas @ ?mid"] assms(7)
    by simp
  have "flattern_loop (as @ [?v] @ bs) [] = Inr (fas @ ?mid @ fbs)"
    using flattern_loop_append [of as "[?v] @ bs" "[]"] assms(6) f1 by simp
  then have "Sequence_collected (Sequence_loop (seqs s2) source start endp start [])
             = Inr (VTuple (fas @ ?mid @ fbs), pb)"
    using loop by (simp add: Sequence_collected_def flattern_def)
  then show ?thesis
    by (simp add: Sequence_parse_def)
qed

theorem Sequence_flattern_law_witness:
  "Sequence_parse seqOuter ''a'' 0 1
   = Inr (VTuple [VObj (ObjRef 23 CSequence (Some False)), VTuple [VInt 1, VInt 2, VInt 3]], 1)"
proof -
  have h1: "seq_mapper seqInner = Sequence_default_mapper"
    by (simp add: seqInner_def)
  have h2: "Sequence_collected (Sequence_loop (seqs seqInner) ''a'' 0 1 0 [])
            = Inr (VTuple [VInt 1, VInt 2], 1)"
    by (simp add: seqInner_def tokOne_def tokTwo_def token_defs Sequence_collected_def
        flattern_def)
  have h3: "seqs seqOuter = [] @ Sequence_structure seqInner # [Token_structure tokThree]"
    by (simp add: seqOuter_def)
  have h4: "Sequence_loop [] ''a'' 0 1 0 [] = Inr ([], 0)"
    by simp
  have h5: "Sequence_loop [Token_structure tokThree] ''a'' 0 1 1 [] = Inr ([VInt 3], 1)"
    by (simp add: tokThree_def token_defs)
  have h6: "flattern_loop [] [] = Inr []"
    by simp
  have h7: "flattern_loop [VInt 3] [] = Inr [VInt 3]"
    by simp
  have fl: "seq_flattern seqInner"
    by (simp add: seqInner_def)
  show ?thesis
    using Sequence_flattern_law [OF h1 h2 h3 h4 h5 h6 h7] fl
    by (simp add: Sequence_return_def seqOuter_def Sequence_default_mapper_def
        Sequence_ref_def safecall_def)
qed

text \<open>The two examples evaluated: spliced with the flag, nested without it.\<close>

lemma seqOuter_spliced:
  "Sequence_parse seqOuter ''a'' 0 1
   = Inr (VTuple [VObj (Sequence_ref seqOuter), VTuple [VInt 1, VInt 2, VInt 3]], 1)"
  by (simp add: seqOuter_def seqInner_def tokOne_def tokTwo_def tokThree_def token_defs
      sequence_defs)

lemma seqOuterNested_nested:
  "Sequence_parse seqOuterNested ''a'' 0 1
   = Inr (VTuple [VObj (Sequence_ref seqOuterNested),
                  VTuple [VTuple [VObj (Sequence_ref seqInnerNested), VTuple [VInt 1, VInt 2]],
                          VInt 3]], 1)"
  by (simp add: seqOuterNested_def seqInnerNested_def tokOne_def tokTwo_def tokThree_def
      token_defs sequence_defs)

section \<open>Switch\<close>

lemma Switch_loop_skip:
  assumes "\<forall>s \<in> set before. raises_nomatch (meth s source start endp)"
  shows "Switch_loop meth (before @ rest) source start endp
         = Switch_loop meth rest source start endp"
  using assms
proof (induction before)
  case Nil
  show ?case by simp
next
  case (Cons s before)
  then have "raises_nomatch (meth s source start endp)" by simp
  then obtain e where "meth s source start endp = Inl e" "isinstance_ParserNotMatchException e"
    by (cases "meth s source start endp") auto
  then show ?case using Cons by simp
qed

text \<open>
  C4. Let the alternatives of a switch be \<open>before\<close>, then \<open>a\<close>, then \<open>after\<close>, and
  let every alternative in \<open>before\<close> raise the recoverable no-match exception. If \<open>a\<close>
  returns, the switch returns the mapper's value for the result of \<open>a\<close>, with \<open>a\<close> as
  the matched structure, whatever \<open>after\<close> holds; if \<open>a\<close> raises anything but the
  no-match exception, the switch raises that same exception, whatever \<open>after\<close> holds.
\<close>

theorem Switch_parse_first_match:
  assumes "items (switches self) = before @ a # after"
    and "\<forall>s \<in> set before. raises_nomatch (parse s source start endp)"
  shows "(parse a source start endp = Inr (obj, n)
            \<longrightarrow> Switch_parse self source start endp = Switch_return self obj n a)
         \<and> (parse a source start endp = Inl e \<and> \<not> isinstance_ParserNotMatchException e
            \<longrightarrow> Switch_parse self source start endp = Inl e)"
proof -
  have "Switch_loop parse (items (switches self)) source start endp
        = Switch_loop parse (a # after) source start endp"
    using Switch_loop_skip [of before parse source start endp "a # after"] assms by simp
  then show ?thesis
    by (simp add: Switch_parse_def)
qed

theorem Switch_parse_first_match_witness:
  "Switch_parse swOverlap ''a'' 0 1 = Inr (VInt 1, 1)
   \<and> Switch_parse swFatal ''a'' 0 1 = Inl (ParserFatalException ''stop'' ''a'' 0)"
proof -
  have nb: "\<forall>s \<in> set [Token_structure tokB]. raises_nomatch (parse s ''a'' 0 1)"
    by (simp add: tokB_def token_defs)
  have i1: "items (switches swOverlap)
            = [Token_structure tokB] @ Token_structure tokOne # [Token_structure tokTwo]"
    by (simp add: swOverlap_def Switch_bind_def)
  have p1: "parse (Token_structure tokOne) ''a'' 0 1 = Inr (VInt 1, 1)"
    by (simp add: tokOne_def token_defs)
  have i2: "items (switches swFatal)
            = [Token_structure tokB] @ Token_structure tokFatal # [Token_structure tokTwo]"
    by (simp add: swFatal_def Switch_bind_def)
  have p2: "parse (Token_structure tokFatal) ''a'' 0 1
            = Inl (ParserFatalException ''stop'' ''a'' 0)"
    by (simp add: tokFatal_def token_defs)
  have r: "Switch_return swOverlap (VInt 1) 1 (Token_structure tokOne) = Inr (VInt 1, 1)"
    by (simp add: Switch_return_def swOverlap_def Switch_bind_def Switch_default_mapper_def
        safecall_def)
  have a: "Switch_parse swOverlap ''a'' 0 1 = Inr (VInt 1, 1)"
    using Switch_parse_first_match [OF i1 nb, where obj = "VInt 1" and n = 1] p1 r by simp
  have b: "Switch_parse swFatal ''a'' 0 1 = Inl (ParserFatalException ''stop'' ''a'' 0)"
    using Switch_parse_first_match [OF i2 nb, where e = "ParserFatalException ''stop'' ''a'' 0"]
      p2
    by simp
  from a b show ?thesis by simp
qed




text \<open>
  C9. On the bound switch \<open>swOpt\<close>, adding a structure that is not among the alternatives
  raises \<^verbatim>\<open>AttributeError\<close>, and so does removing one that is: the alternatives are
  a tuple, and no switch with a changed list comes back.
\<close>

theorem Switch_add_remove_raise:
  "\<not> contains (items (switches swOpt)) (Token_structure tokB)
   \<and> Switch_add swOpt (Token_structure tokB) = Inl (PyException ''AttributeError'')
   \<and> contains (items (switches swOpt)) (Token_structure tokA)
   \<and> Switch_remove swOpt (Token_structure tokA) = Inl (PyException ''AttributeError'')"
  by (simp add: swOpt_def Switch_bind_def Switch_add_def Switch_remove_def py_append_def
      py_remove_def Token_structure_def Token_ref_def tokA_def tokB_def)

text \<open>The same for whatever \<^verbatim>\<open>bind\<close> was given.\<close>

lemma Switch_add_bound:
  "Switch_add (Switch_bind i r args mapper allow) s
   = (if contains args s then Inr (Switch_bind i r args mapper allow)
      else Inl (PyException ''AttributeError''))"
  by (simp add: Switch_add_def Switch_bind_def py_append_def)

lemma Switch_remove_bound:
  "Switch_remove (Switch_bind i r args mapper allow) s = Inl (PyException ''AttributeError'')"
  by (simp add: Switch_remove_def Switch_bind_def py_remove_def)

end
